theory Spec2Isabelle
  imports Complex_Main
begin

section \<open>Python strings\<close>

text \<open>
  The command stack of \<^verbatim>\<open>bluesky/stack/stack.py\<close> works on Python 2 byte strings.
  They are modelled as \<^typ>\<open>string\<close>; the string methods the source calls are
  written out below with the behaviour of the Python built-ins.
\<close>

definition py_space :: "char \<Rightarrow> bool" where
  "py_space c = (c = CHR '' '' \<or> c = CHR 0x09 \<or> c = CHR 0x0A \<or> c = CHR 0x0B
                 \<or> c = CHR 0x0C \<or> c = CHR 0x0D)"

text \<open>\<^verbatim>\<open>s.strip()\<close> and \<^verbatim>\<open>s.strip(chars)\<close>.\<close>

definition strip_with :: "(char \<Rightarrow> bool) \<Rightarrow> string \<Rightarrow> string" where
  "strip_with p s = rev (dropWhile p (rev (dropWhile p s)))"

definition strip :: "string \<Rightarrow> string" where
  "strip s = strip_with py_space s"

definition strip_chars :: "string \<Rightarrow> string \<Rightarrow> string" where
  "strip_chars cs s = strip_with (\<lambda>c. c \<in> set cs) s"

text \<open>\<^verbatim>\<open>s.split(c)\<close> for a one-character separator: never the empty list.\<close>

fun split_on :: "char \<Rightarrow> string \<Rightarrow> string list" where
  "split_on c [] = [[]]"
| "split_on c (x # xs) =
     (if x = c then [] # split_on c xs
      else (case split_on c xs of
              [] \<Rightarrow> [[x]]
            | w # ws \<Rightarrow> (x # w) # ws))"

definition upper_char :: "char \<Rightarrow> char" where
  "upper_char c =
     (let n = (of_char c :: nat) in if 97 \<le> n \<and> n \<le> 122 then char_of (n - 32) else c)"

definition lower_char :: "char \<Rightarrow> char" where
  "lower_char c =
     (let n = (of_char c :: nat) in if 65 \<le> n \<and> n \<le> 90 then char_of (n + 32) else c)"

definition upper :: "string \<Rightarrow> string" where
  "upper s = map upper_char s"

definition lower :: "string \<Rightarrow> string" where
  "lower s = map lower_char s"

fun starts_with :: "string \<Rightarrow> string \<Rightarrow> bool" where
  "starts_with [] s = True"
| "starts_with (p # ps) [] = False"
| "starts_with (p # ps) (c # cs) = (p = c \<and> starts_with ps cs)"

text \<open>\<^verbatim>\<open>s.find(sub) >= 0\<close>.\<close>

fun contains :: "string \<Rightarrow> string \<Rightarrow> bool" where
  "contains sub [] = (sub = [])"
| "contains sub (c # cs) = (starts_with sub (c # cs) \<or> contains sub cs)"

section \<open>Exceptions and the interpreter state\<close>

datatype exn = IndexError | ValueError | IOError | TypeError | NameError | Other string

text \<open>
  The attributes of \<^verbatim>\<open>Commandstack\<close> that change during a run. The two parallel
  lists \<^verbatim>\<open>scentime\<close> and \<^verbatim>\<open>scencmd\<close> are the scenario timeline, \<^verbatim>\<open>cmdstack\<close>
  is the queue of pending lines. \<open>echoed\<close> records the texts handed to \<^verbatim>\<open>scr.echo\<close>,
  in order; \<open>world\<close> is the state of the collaborators \<^verbatim>\<open>sim\<close>, \<^verbatim>\<open>traf\<close> and \<^verbatim>\<open>scr\<close>,
  which are not part of this source. Trigger times are Python floats; they are
  modelled as reals, so rounding, overflow and NaN are outside the model.
\<close>

record 'w stk =
  cmdstack :: "string list"
  scentime :: "real list"
  scencmd :: "string list"
  scenfile :: string
  echoed :: "string list"
  world :: 'w

datatype fsentry = Unreadable | File "string list"

text \<open>
  What \<^verbatim>\<open>openfile\<close> takes from outside the class: \<^verbatim>\<open>settings.scenario_path\<close>, the file
  system (a path that does not exist is \<open>None\<close>; \<open>File ls\<close> is what \<^verbatim>\<open>readlines()\<close>
  returns), and the built-in conversions \<^verbatim>\<open>int()\<close> and \<^verbatim>\<open>float()\<close>, with
  \<open>None\<close> where they raise.
\<close>

record pyenv =
  scenario_path :: string
  fs :: "string \<Rightarrow> fsentry option"
  py_int :: "string \<Rightarrow> int option"
  py_float :: "string \<Rightarrow> real option"

section \<open>The scenario scheduler\<close>

text \<open>\<^verbatim>\<open>reset\<close>: empties the timeline.\<close>

definition reset :: "'w stk \<Rightarrow> 'w stk" where
  "reset st = st\<lparr>scentime := [], scencmd := []\<rparr>"

text \<open>\<^verbatim>\<open>stack(cmdline)\<close>: queue one or more commands separated by \<^verbatim>\<open>;\<close>.\<close>

definition stack :: "string \<Rightarrow> 'w stk \<Rightarrow> 'w stk" where
  "stack cmdline st =
     (let c = strip cmdline
      in if length c > 0 then st\<lparr>cmdstack := cmdstack st @ split_on (CHR '';'') c\<rparr> else st)"

text \<open>The resolution of the file name at the head of \<^verbatim>\<open>openfile\<close>.\<close>

definition resolve_scenfile :: "string \<Rightarrow> string \<Rightarrow> exn + string" where
  "resolve_scenfile spath scenname0 =
     (let scenname = (if \<not> contains ''.scn'' (lower scenname0) then scenname0 @ ''.scn''
                      else scenname0)
      in if CHR ''/'' \<notin> set scenname \<and> CHR 0x5C \<notin> set scenname then
           (if spath = [] then Inl IndexError
            else Inr ((if last spath \<noteq> CHR ''/'' then spath @ ''/'' else spath)
                      @ lower scenname))
         else Inr scenname)"

text \<open>
  The first loop of \<^verbatim>\<open>openfile\<close> deletes every line whose stripped length is at most
  12 or whose first character is \<^verbatim>\<open>#\<close>.
\<close>

definition starts_hash :: "string \<Rightarrow> bool" where
  "starts_hash l = (case l of [] \<Rightarrow> False | c # _ \<Rightarrow> c = CHR ''#'')"

fun drop_short :: "string list \<Rightarrow> string list" where
  "drop_short [] = []"
| "drop_short (l # ls) =
     (if length (strip l) \<le> 12 \<or> starts_hash l then drop_short ls else l # drop_short ls)"

text \<open>
  The body of the \<^verbatim>\<open>try\<close> for one line: the text before the first \<^verbatim>\<open>>\<close> is the
  time stamp, split at \<^verbatim>\<open>:\<close>; the command is the rest of the line without its last
  character. Every exception inside the \<^verbatim>\<open>try\<close> is caught by the bare \<^verbatim>\<open>except\<close>,
  so the result is \<open>None\<close> for a line that is ignored.
\<close>

definition read_stamp :: "'a pyenv_scheme \<Rightarrow> real \<Rightarrow> string \<Rightarrow> (real \<times> string) option" where
  "read_stamp env t_offset line =
     (if CHR ''>'' \<notin> set line then None
      else
        let icmdline = length (takeWhile (\<lambda>c. c \<noteq> CHR ''>'') line);
            tstamp = take icmdline line;
            ttxt = split_on (CHR '':'') (strip tstamp)
        in (case ttxt of
              a # b # c # _ \<Rightarrow>
                (case py_int env a of
                   None \<Rightarrow> None
                 | Some ihr \<Rightarrow>
                     (case py_int env b of
                        None \<Rightarrow> None
                      | Some imin \<Rightarrow>
                          (case py_float env c of
                             None \<Rightarrow> None
                           | Some xsec \<Rightarrow>
                               Some (real_of_int ihr * 3600 + real_of_int imin * 60 + xsec
                                       + t_offset,
                                     butlast (drop (icmdline + 1) line)))))
            | _ \<Rightarrow> None))"

text \<open>
  The second loop of \<^verbatim>\<open>openfile\<close>, appending to the two lists.
  \<^verbatim>\<open>line.strip()[0]\<close> raises on a blank line.
\<close>

fun read_lines ::
  "'a pyenv_scheme \<Rightarrow> real \<Rightarrow> string list \<Rightarrow> real list \<Rightarrow> string list
     \<Rightarrow> exn + (real list \<times> string list)" where
  "read_lines env off [] ts cs = Inr (ts, cs)"
| "read_lines env off (l # ls) ts cs =
     (case strip l of
        [] \<Rightarrow> Inl IndexError
      | c0 # _ \<Rightarrow>
          if c0 \<noteq> CHR ''#'' then
            (case read_stamp env off l of
               Some (t, c) \<Rightarrow> read_lines env off ls (ts @ [t]) (cs @ [c])
             | None \<Rightarrow> read_lines env off ls ts cs)
          else read_lines env off ls ts cs)"

text \<open>
  The re-sorting of a merge:
  \<^verbatim>\<open>self.scentime, self.scencmd = [list(x) for x in zip(*sorted(zip(...), key=...))]\<close>.
  Python's \<^verbatim>\<open>sorted\<close> is stable, as \<^const>\<open>sort_key\<close> is. For an empty timeline
  \<^verbatim>\<open>zip(*[])\<close> is the empty list and the unpacking into two names raises ValueError.
\<close>

definition resort :: "real list \<Rightarrow> string list \<Rightarrow> exn + (real list \<times> string list)" where
  "resort ts cs =
     (let s = sort_key fst (zip ts cs)
      in if s = [] then Inl ValueError else Inr (map fst s, map snd s))"

definition openfile ::
  "'a pyenv_scheme \<Rightarrow> string \<Rightarrow> real \<Rightarrow> bool \<Rightarrow> 'w stk \<Rightarrow> exn + 'w stk" where
  "openfile env scenname t_offset mergeWithExisting st =
     (case resolve_scenfile (scenario_path env) scenname of
        Inl e \<Rightarrow> Inl e
      | Inr path \<Rightarrow>
          (case fs env path of
             None \<Rightarrow> Inr st
           | Some Unreadable \<Rightarrow> Inl IOError
           | Some (File ls) \<Rightarrow>
               let scenlines = drop_short ls;
                   st1 = (if \<not> mergeWithExisting then st\<lparr>scentime := [], scencmd := []\<rparr>
                          else st)
               in (case read_lines env t_offset scenlines (scentime st1) (scencmd st1) of
                     Inl e \<Rightarrow> Inl e
                   | Inr (ts, cs) \<Rightarrow>
                       if mergeWithExisting then
                         (case resort ts cs of
                            Inl e \<Rightarrow> Inl e
                          | Inr (ts', cs') \<Rightarrow> Inr (st1\<lparr>scentime := ts', scencmd := cs'\<rparr>))
                       else Inr (st1\<lparr>scentime := ts, scencmd := cs\<rparr>))))"


text \<open>
  \<^verbatim>\<open>pcall\<close>: load a file into the running scenario; \<open>simt\<close> is \<^verbatim>\<open>sim.simt\<close>.
\<close>

definition pcall ::
  "'a pyenv_scheme \<Rightarrow> real \<Rightarrow> string \<Rightarrow> string \<Rightarrow> 'w stk \<Rightarrow> exn + 'w stk" where
  "pcall env simt filename absrel st =
     openfile env filename (if absrel = ''REL'' then simt else 0) True st"

text \<open>
  The lines of a file that the second loop of \<^verbatim>\<open>openfile\<close> accepts, with their
  trigger times, in file order: a line is left out when it starts with \<^verbatim>\<open>#\<close> after
  stripping or when reading its time stamp fails. This is the specification side of
  \<^const>\<open>read_lines\<close>.
\<close>

definition accepted :: "'a pyenv_scheme \<Rightarrow> real \<Rightarrow> string list \<Rightarrow> (real \<times> string) list" where
  "accepted env off ls =
     List.map_filter (\<lambda>l. if starts_hash (strip l) then None else read_stamp env off l) ls"

section \<open>The dispatcher\<close>

datatype pyval = PNone | PInt int | PFloat real | PBool bool | PStr string | PSeq "pyval list"

text \<open>\<^verbatim>\<open>not v\<close> is \<open>\<not> truthy v\<close>.\<close>

fun truthy :: "pyval \<Rightarrow> bool" where
  "truthy PNone = False"
| "truthy (PInt n) = (n \<noteq> 0)"
| "truthy (PFloat x) = (x \<noteq> 0)"
| "truthy (PBool b) = b"
| "truthy (PStr s) = (s \<noteq> [])"
| "truthy (PSeq vs) = (vs \<noteq> [])"

text \<open>
  The local variable \<^verbatim>\<open>i\<close> of \<^verbatim>\<open>process\<close> is assigned in several branches and read
  in the report of a handler's result, so its value is carried from one queued line to
  the next: unbound at entry, an integer after the coercion loop, a string after the
  \<^verbatim>\<open>for i in args[1:]\<close> of the BOX and POLY branches.
\<close>

datatype ivar = IUnbound | IInt int | IStr string

text \<open>\<^verbatim>\<open>args[i]\<close>.\<close>

definition arg_at :: "string list \<Rightarrow> ivar \<Rightarrow> exn + string" where
  "arg_at args iv =
     (case iv of
        IUnbound \<Rightarrow> Inl NameError
      | IStr _ \<Rightarrow> Inl TypeError
      | IInt k \<Rightarrow>
          (let n = int (length args); j = (if k < 0 then n + k else k)
           in if 0 \<le> j \<and> j < n then Inr (args ! nat j) else Inl IndexError))"

text \<open>What the processing of one queued line does to the loop of \<^verbatim>\<open>process\<close>.\<close>

datatype 'w flow =
    Fall bool ivar "'w stk"
  | Cont ivar "'w stk"
  | Ret "'w stk"
  | Exc exn

datatype 'w step = Go ivar "'w stk" | Stop "'w stk" | Fail exn

text \<open>The branches of the \<^verbatim>\<open>elif\<close> chain that follow the command dictionary.\<close>

datatype branch =
    BPos | BDel | BDestOrig | BZoom | BPan | BIc | BSaveic | BMetric | BArea | BTaxi
  | BSwrad | BTrail | BDist | BCalc | BLnav | BVnav | BAsas | BAddwpt | BDelwpt | BDirect
  | BListrte | BAdsbcoverage | BBox | BPoly | BCircle | BLine | BDumprte | BXxx

type_synonym 'w handler = "pyval list \<Rightarrow> 'w stk \<Rightarrow> exn + (pyval \<times> 'w stk)"

type_synonym 'w extension = "string \<Rightarrow> nat \<Rightarrow> string list \<Rightarrow> 'w stk \<Rightarrow> exn + 'w stk"

text \<open>
  What \<^verbatim>\<open>process\<close> takes from outside this source: \<^verbatim>\<open>cmdsplit\<close>, \<^verbatim>\<open>txt2lat\<close>,
  \<^verbatim>\<open>txt2lon\<close> and \<^verbatim>\<open>txt2alt\<close> of \<^verbatim>\<open>tools.misc\<close>, the units of \<^verbatim>\<open>tools.aero\<close>,
  \<^verbatim>\<open>traf.id\<close>, \<^verbatim>\<open>traf.id2idx\<close> and \<^verbatim>\<open>sim.metric is None\<close>. The three tables are the
  attributes \<^verbatim>\<open>cmddict\<close>, \<^verbatim>\<open>cmdsynon\<close> and \<^verbatim>\<open>extracmdrefs\<close>, filled by the constructor;
  an entry of \<^verbatim>\<open>cmddict\<close> is the help text, the argument types and the function to
  call. A handler and an extension module run on the whole state, since the functions
  registered by the constructor queue lines, load scenarios and echo texts.
  \<open>builtin\<close> stands for the bodies of the branches after the dictionary, which drive
  \<^verbatim>\<open>sim\<close>, \<^verbatim>\<open>traf\<close> and \<^verbatim>\<open>scr\<close>; it is given the branch, the command, the arguments, the
  line, \<^verbatim>\<open>i\<close> and the state. A flow of type \<^typ>\<open>'w flow\<close> is the end of the branch
  chain with the value of \<^verbatim>\<open>synerr\<close>, a \<^verbatim>\<open>continue\<close>, a \<^verbatim>\<open>return\<close> or an exception
  that leaves \<^verbatim>\<open>process\<close>.
\<close>

record 'w env = pyenv +
  cmdsplit :: "string \<Rightarrow> string list \<Rightarrow> string \<times> string list"
  traf_id :: "'w \<Rightarrow> string list"
  id2idx :: "'w \<Rightarrow> string \<Rightarrow> int"
  metric_none :: "'w \<Rightarrow> bool"
  txt2lat :: "string \<Rightarrow> real option"
  txt2lon :: "string \<Rightarrow> real option"
  txt2alt :: "string \<Rightarrow> real option"
  kts :: real
  ft :: real
  fpm :: real
  cmddict :: "string \<Rightarrow> (string \<times> string \<times> 'w handler) option"
  cmdsynon :: "string \<Rightarrow> string option"
  extracmdrefs :: "string \<Rightarrow> 'w extension option"
  builtin :: "branch \<Rightarrow> string \<Rightarrow> string list \<Rightarrow> string \<Rightarrow> ivar \<Rightarrow> 'w stk \<Rightarrow> 'w flow"

text \<open>\<^verbatim>\<open>scr.echo(text)\<close>.\<close>

definition echo :: "string \<Rightarrow> 'w stk \<Rightarrow> 'w stk" where
  "echo m st = st\<lparr>echoed := echoed st @ [m]\<rparr>"

text \<open>
  The split of the argument type list of a dictionary entry: the types before the first
  \<^verbatim>\<open>[\<close> are mandatory, the types of the bracket are added when the list has one
  bracket.
\<close>

definition mandatory_types :: "string \<Rightarrow> string list" where
  "mandatory_types argtypelist =
     (case split_on (CHR ''['') argtypelist of
        [] \<Rightarrow> []
      | a # _ \<Rightarrow>
          (let argtypes = split_on (CHR '','') (strip_chars '','' a)
           in if argtypes = [''''] then [] else argtypes))"

definition all_types :: "string \<Rightarrow> string list" where
  "all_types argtypelist =
     (case split_on (CHR ''['') argtypelist of
        [a, b] \<Rightarrow> mandatory_types argtypelist @ split_on (CHR '','') (strip_chars '']'' b)
      | _ \<Rightarrow> mandatory_types argtypelist)"

text \<open>\<^verbatim>\<open>s.replace("..", ".")\<close>, \<^verbatim>\<open>s.replace(c, d)\<close> and \<^verbatim>\<open>s.replace(c, "")\<close>.\<close>

fun squeeze_dots :: "string \<Rightarrow> string" where
  "squeeze_dots (a # b # cs) =
     (if a = CHR ''.'' \<and> b = CHR ''.'' then CHR ''.'' # squeeze_dots cs
      else a # squeeze_dots (b # cs))"
| "squeeze_dots cs = cs"

definition replace_char :: "char \<Rightarrow> char \<Rightarrow> string \<Rightarrow> string" where
  "replace_char c d s = map (\<lambda>x. if x = c then d else x) s"

definition remove_char :: "char \<Rightarrow> string \<Rightarrow> string" where
  "remove_char c s = filter (\<lambda>x. x \<noteq> c) s"

text \<open>\<^verbatim>\<open>s.isdigit()\<close>.\<close>

definition isdigit :: "string \<Rightarrow> bool" where
  "isdigit s = (s \<noteq> [] \<and> list_all (\<lambda>c. 48 \<le> (of_char c :: nat) \<and> (of_char c :: nat) \<le> 57) s)"

text \<open>
  One round of the coercion loop, for the argument \<open>a\<close> declared with type \<open>argtype\<close>:
  a value is appended, nothing is appended, \<^verbatim>\<open>synerr\<close> is set (a latitude or longitude
  that cannot be read), the aircraft is not found, or an exception is raised.
\<close>

datatype cstep = Push pyval | Skip | SynErr | NotFound | Throw

definition coerce_arg :: "'w env \<Rightarrow> 'w \<Rightarrow> string \<Rightarrow> string \<Rightarrow> cstep" where
  "coerce_arg env w argtype a =
     (if a = '''' \<or> a = ''*'' then Push PNone
      else if argtype = ''acid'' then
        (let idx = id2idx env w a in if idx < 0 then NotFound else Push (PInt idx))
      else if argtype = ''txt'' then Push (PStr a)
      else if argtype = ''float'' then
        (case py_float env a of None \<Rightarrow> Throw | Some x \<Rightarrow> Push (PFloat x))
      else if argtype = ''int'' then
        (case py_int env a of None \<Rightarrow> Throw | Some n \<Rightarrow> Push (PInt n))
      else if argtype = ''onoff'' \<or> argtype = ''bool'' then
        Push (PBool (a = ''ON'' \<or> a = ''1'' \<or> a = ''TRUE''))
      else if argtype = ''lat'' then
        (case txt2lat env a of None \<Rightarrow> SynErr | Some x \<Rightarrow> Push (PFloat x))
      else if argtype = ''lon'' then
        (case txt2lon env a of None \<Rightarrow> SynErr | Some x \<Rightarrow> Push (PFloat x))
      else if argtype = ''spd'' then
        (case py_float env (squeeze_dots (replace_char (CHR ''M'') (CHR ''.'') (upper a))) of
           None \<Rightarrow> Throw
         | Some spd \<Rightarrow>
             Push (PFloat (if \<not> (1 / 10 < spd \<and> spd < 1) then spd * kts env else spd)))
      else if argtype = ''vspd'' then
        (case py_float env a of None \<Rightarrow> Throw | Some x \<Rightarrow> Push (PFloat (fpm env * x)))
      else if argtype = ''alt'' then
        (case txt2alt env a of None \<Rightarrow> Throw | Some x \<Rightarrow> Push (PFloat (ft env * x)))
      else if argtype = ''hdg'' then
        (case py_float env (remove_char (CHR ''M'') (remove_char (CHR ''T'') (upper a))) of
           None \<Rightarrow> Throw
         | Some hdg \<Rightarrow> Push (PFloat hdg))
      else if argtype = ''time'' then
        (case split_on (CHR '':'') (strip a) of
           h # m # s # _ \<Rightarrow>
             (case py_int env h of
                None \<Rightarrow> Throw
              | Some ihr \<Rightarrow>
                  (case py_int env m of
                     None \<Rightarrow> Throw
                   | Some imin \<Rightarrow>
                       (case py_float env s of
                          None \<Rightarrow> Throw
                        | Some xsec \<Rightarrow>
                            Push (PFloat (real_of_int ihr * 3600 + real_of_int imin * 60
                                            + xsec)))))
         | _ \<Rightarrow> (case py_float env a of None \<Rightarrow> Throw | Some x \<Rightarrow> Push (PFloat x)))
      else Skip)"

text \<open>
  The loop \<^verbatim>\<open>for i in range(min(numtypes, numargs))\<close> over the declared types and the
  arguments, from index \<open>k\<close> on. The result is the argument list, \<^verbatim>\<open>synerr\<close>, \<^verbatim>\<open>i\<close> and
  the texts echoed: an aircraft that is not found breaks the loop with \<^verbatim>\<open>synerr\<close>
  set; an exception is caught around the loop, which resets \<^verbatim>\<open>synerr\<close> and echoes
  three texts. In both cases the arguments appended so far stay in the list.
\<close>

fun coerce_loop ::
  "'w env \<Rightarrow> 'w \<Rightarrow> string \<Rightarrow> string \<Rightarrow> string \<Rightarrow> (string \<times> string) list \<Rightarrow> nat
     \<Rightarrow> pyval list \<Rightarrow> bool \<Rightarrow> ivar \<Rightarrow> pyval list \<times> bool \<times> ivar \<times> string list" where
  "coerce_loop env w cmd line helptext [] k arglist synerr iv = (arglist, synerr, iv, [])"
| "coerce_loop env w cmd line helptext ((ty, a) # rest) k arglist synerr iv =
     (case coerce_arg env w (strip ty) a of
        Push v \<Rightarrow>
          coerce_loop env w cmd line helptext rest (Suc k) (arglist @ [v]) synerr (IInt (int k))
      | Skip \<Rightarrow>
          coerce_loop env w cmd line helptext rest (Suc k) arglist synerr (IInt (int k))
      | SynErr \<Rightarrow>
          coerce_loop env w cmd line helptext rest (Suc k) arglist True (IInt (int k))
      | NotFound \<Rightarrow> (arglist, True, IInt (int k), [cmd @ '':'' @ a @ '' not found''])
      | Throw \<Rightarrow>
          (arglist, False, IInt (int k),
           [''Syntax error in processing arguments'', line, helptext]))"

text \<open>
  The argument list handed to the function of a dictionary entry. When the types are the
  single \<^verbatim>\<open>txt\<close>, it is the original line after the command and one more character.
\<close>

definition prepare_args ::
  "'w env \<Rightarrow> 'w \<Rightarrow> string \<Rightarrow> string \<Rightarrow> string \<Rightarrow> string list \<Rightarrow> string list \<Rightarrow> ivar
     \<Rightarrow> pyval list \<times> bool \<times> ivar \<times> string list" where
  "prepare_args env w cmd line helptext argtypes args iv =
     (if argtypes = [''txt''] then ([PStr (drop (length cmd + 1) line)], False, iv, [])
      else coerce_loop env w cmd line helptext (zip argtypes args) 0 [] False iv)"

text \<open>The reading of what the function returned.\<close>

definition report ::
  "string \<Rightarrow> string \<Rightarrow> string list \<Rightarrow> ivar \<Rightarrow> pyval \<Rightarrow> bool \<Rightarrow> 'w stk \<Rightarrow> 'w flow" where
  "report cmd helptext args iv results synerr st =
     (if \<not> synerr then
        (case results of
           PBool b \<Rightarrow>
             if \<not> b then
               (if length args \<le> 0 then Fall False iv (echo helptext st)
                else
                  (case arg_at args iv of
                     Inl e \<Rightarrow> Exc e
                   | Inr a \<Rightarrow>
                       if a = ''?'' then Fall False iv (echo helptext st)
                       else Fall False iv (echo (''Syntax error: '' @ helptext) st)))
             else Fall False iv st
         | PSeq rs \<Rightarrow>
             (let synerr1 = (if length rs \<ge> 1 then \<not> truthy (rs ! 0) else synerr)
              in if length rs \<ge> 2 then
                   (case rs ! 1 of
                      PStr m \<Rightarrow> Fall False iv (echo (cmd @ '':'' @ m) st)
                    | _ \<Rightarrow> Exc TypeError)
                 else Fall synerr1 iv st)
         | _ \<Rightarrow> Fall False iv st)
      else Fall True iv (echo (''Syntax error: '' @ helptext) st))"

text \<open>
  The branch of \<^verbatim>\<open>process\<close> for a command of the dictionary. \<^verbatim>\<open>numargs\<close> is
  \<^verbatim>\<open>len(args)\<close> throughout \<^verbatim>\<open>process\<close>.
\<close>

definition registry ::
  "'w env \<Rightarrow> string \<Rightarrow> string \<Rightarrow> string list \<Rightarrow> ivar \<Rightarrow> string \<times> string \<times> 'w handler
     \<Rightarrow> 'w stk \<Rightarrow> 'w flow" where
  "registry env cmd line args iv entry st =
     (case entry of
        (helptext, argtypelist, function) \<Rightarrow>
          if length args < length (mandatory_types argtypelist) then
            Cont iv (echo helptext (echo line (echo ''Syntax error: Too few arguments'' st)))
          else
            (case prepare_args env (world st) cmd line helptext (all_types argtypelist) args iv of
               (arglist, synerr, iv', msgs) \<Rightarrow>
                 (case function arglist (foldl (\<lambda>s m. echo m s) st msgs) of
                    Inl e \<Rightarrow> Exc e
                  | Inr (results, st') \<Rightarrow> report cmd helptext args iv' results synerr st')))"

text \<open>
  The conditions of the \<^verbatim>\<open>elif\<close> chain after the dictionary, in the order of the
  source, up to the extension modules. \<^verbatim>\<open>cmd[0]\<close> of the ZOOM condition raises on the
  empty command.
\<close>

definition select_branch :: "string \<Rightarrow> exn + branch option" where
  "select_branch cmd =
     (if cmd = ''POS'' \<or> cmd = ''?'' then Inr (Some BPos)
      else if cmd = ''DEL'' then Inr (Some BDel)
      else if cmd = ''DEST'' \<or> cmd = ''ORIG'' then Inr (Some BDestOrig)
      else if take 4 cmd = ''ZOOM'' then Inr (Some BZoom)
      else
        (case cmd of
           [] \<Rightarrow> Inl IndexError
         | c0 # _ \<Rightarrow>
             if c0 = CHR ''+'' \<or> c0 = CHR ''='' \<or> c0 = CHR ''-'' then Inr (Some BZoom)
             else if take 4 cmd = ''PAN'' then Inr (Some BPan)
             else if cmd = ''IC'' then Inr (Some BIc)
             else if cmd = ''SAVEIC'' then Inr (Some BSaveic)
             else if take 6 cmd = ''METRIC'' then Inr (Some BMetric)
             else if cmd = ''AREA'' then Inr (Some BArea)
             else if cmd = ''TAXI'' then Inr (Some BTaxi)
             else if cmd = ''SWRAD'' \<or> take 4 cmd = ''DISP'' then Inr (Some BSwrad)
             else if take 5 cmd = ''TRAIL'' then Inr (Some BTrail)
             else if take 4 cmd = ''DIST'' then Inr (Some BDist)
             else if take 4 cmd = ''CALC'' then Inr (Some BCalc)
             else if cmd = ''LNAV'' then Inr (Some BLnav)
             else if cmd = ''VNAV'' then Inr (Some BVnav)
             else if cmd = ''ASAS'' then Inr (Some BAsas)
             else if cmd = ''ADDWPT'' then Inr (Some BAddwpt)
             else if cmd = ''DELWPT'' then Inr (Some BDelwpt)
             else if cmd = ''DIRECT'' then Inr (Some BDirect)
             else if cmd = ''LISTRTE'' then Inr (Some BListrte)
             else if cmd = ''ADSBCOVERAGE'' then Inr (Some BAdsbcoverage)
             else if cmd = ''BOX'' then Inr (Some BBox)
             else if take 4 cmd = ''POLY'' then Inr (Some BPoly)
             else if cmd = ''CIRCLE'' then Inr (Some BCircle)
             else if take 4 cmd = ''LINE'' then Inr (Some BLine)
             else if take 7 cmd = ''DUMPRTE'' then Inr (Some BDumprte)
             else if take 3 cmd = ''XXX'' then Inr (Some BXxx)
             else Inr None))"

text \<open>
  The METRICS branch. Its tests and the \<^verbatim>\<open>return\<close> after an invalid argument are
  those of the source; the bodies that read or set \<^verbatim>\<open>sim.metric\<close> are in
  \<^const>\<open>builtin\<close>.
\<close>

definition metric_branch ::
  "'w env \<Rightarrow> string \<Rightarrow> string list \<Rightarrow> string \<Rightarrow> ivar \<Rightarrow> 'w stk \<Rightarrow> 'w flow" where
  "metric_branch env cmd args line iv st =
     (if metric_none env (world st) then Fall False iv (echo ''METRICS module disabled'' st)
      else if length args < 1 then builtin env BMetric cmd args line iv st
      else
        (case args of
           [] \<Rightarrow> Exc IndexError
         | a0 # _ \<Rightarrow>
             if a0 = ''OFF'' then builtin env BMetric cmd args line iv st
             else if \<not> isdigit (drop 1 a0) then Ret (echo ''Command argument invalid'' st)
             else builtin env BMetric cmd args line iv st))"

text \<open>
  The head of the loop body: the command and its arguments, after the replacement of a
  lone aircraft id by POS and after the synonym table.
\<close>

definition resolve :: "'w env \<Rightarrow> 'w \<Rightarrow> string \<Rightarrow> string \<times> string list" where
  "resolve env w line =
     (case cmdsplit env (upper line) (traf_id env w) of
        (cmd0, args0) \<Rightarrow>
          (case (if length args0 = 0 \<and> count_list (traf_id env w) cmd0 > 0
                 then (''POS'', [cmd0]) else (cmd0, args0)) of
             (cmd1, args) \<Rightarrow>
               ((case cmdsynon env cmd1 of Some c \<Rightarrow> c | None \<Rightarrow> cmd1), args)))"

text \<open>The default message at the end of the loop body.\<close>

definition finish :: "string \<Rightarrow> string \<Rightarrow> 'w flow \<Rightarrow> 'w step" where
  "finish cmd line fl =
     (case fl of
        Fall synerr iv st \<Rightarrow>
          if synerr then Go iv (echo line (echo (''Syntax error in command:'' @ cmd) st))
          else Go iv st
      | Cont iv st \<Rightarrow> Go iv st
      | Ret st \<Rightarrow> Stop st
      | Exc e \<Rightarrow> Fail e)"

text \<open>The body of the loop of \<^verbatim>\<open>process\<close> for one queued line.\<close>

definition process_line :: "'w env \<Rightarrow> string \<Rightarrow> ivar \<Rightarrow> 'w stk \<Rightarrow> 'w step" where
  "process_line env line0 iv st =
     (let line = strip line0
      in if length line = 0 then Go iv st
         else
           (case resolve env (world st) line of
              (cmd, args) \<Rightarrow>
                finish cmd line
                  (case cmddict env cmd of
                     Some entry \<Rightarrow> registry env cmd line args iv entry st
                   | None \<Rightarrow>
                       (case select_branch cmd of
                          Inl e \<Rightarrow> Exc e
                        | Inr (Some BMetric) \<Rightarrow> metric_branch env cmd args line iv st
                        | Inr (Some b) \<Rightarrow> builtin env b cmd args line iv st
                        | Inr None \<Rightarrow>
                            (case extracmdrefs env (take 4 cmd) of
                               Some ext \<Rightarrow>
                                 (case ext (drop 4 cmd) (length args) (cmd # args) st of
                                    Inl e \<Rightarrow> Exc e
                                  | Inr st' \<Rightarrow> Fall False iv st')
                             | None \<Rightarrow>
                                 if length args = 0 then
                                   Fall False iv (echo (''Unknown command or aircraft: '' @ cmd) st)
                                 else Fall False iv (echo (''Unknown command: '' @ cmd) st))))))"

text \<open>
  \<^verbatim>\<open>process\<close>: the \<^verbatim>\<open>for\<close> loop reads the queue by position, so lines appended while
  it runs are reached too, and the queue is emptied after the loop. A handler that
  queues a line each time it runs keeps the loop going for ever; the loop is therefore
  given fuel, and \<open>None\<close> is the pass that has not ended when the fuel is used up.
\<close>

fun process_loop :: "'w env \<Rightarrow> nat \<Rightarrow> nat \<Rightarrow> ivar \<Rightarrow> 'w stk \<Rightarrow> (exn + 'w stk) option" where
  "process_loop env 0 k iv st = None"
| "process_loop env (Suc n) k iv st =
     (if k < length (cmdstack st) then
        (case process_line env (cmdstack st ! k) iv st of
           Go iv' st' \<Rightarrow> process_loop env n (Suc k) iv' st'
         | Stop st' \<Rightarrow> Some (Inr st')
         | Fail e \<Rightarrow> Some (Inl e))
      else Some (Inr (st\<lparr>cmdstack := []\<rparr>)))"

definition process :: "'w env \<Rightarrow> nat \<Rightarrow> 'w stk \<Rightarrow> (exn + 'w stk) option" where
  "process env fuel st = process_loop env fuel 0 IUnbound st"

section \<open>The tables of the constructor\<close>

text \<open>
  \<^verbatim>\<open>self.cmddict\<close> as the constructor fills it: command, help text, argument types.
  The functions are methods of \<^verbatim>\<open>sim\<close>, \<^verbatim>\<open>traf\<close> and \<^verbatim>\<open>scr\<close>; \<open>h\<close> gives the function of
  each command.
\<close>

definition cmdtable :: "(string \<times> string \<times> string) list" where
  "cmdtable =
     [(''ADDNODES'', ''ADDNODES number'', ''int''),
      (''ALT'', ''ALT acid, alt, [vspd]'', ''acid,alt,[vspd]''),
      (''BATCH'', ''BATCH filename'', ''txt''),
      (''CRE'', ''CRE acid,type,lat,lon,hdg,alt,spd'', ''txt,txt,lat,lon,hdg,alt,spd''),
      (''DATAFEED'', ''DATAFEED [ON/OFF]'', ''[onoff]''),
      (''DT'', ''DT dt'', ''float''),
      (''DTMULT'', ''DTMULT multiplier'', ''float''),
      (''ECHO'', ''ECHO txt'', ''txt''),
      (''ENG'', ''ENG acid,[engine_id]'', ''acid,[txt]''),
      (''FF'', ''FF [tend]'', ''[time]''),
      (''FIXDT'', ''FIXDT ON/OFF [tend]'', ''onoff,[time]''),
      (''HDG'', ''HDG acid,hdg (deg,True)'', ''acid,float''),
      (''HELP'', ''HELP [command]'', ''[txt]''),
      (''HOLD'', ''HOLD'', ''''),
      (''INSEDIT'', ''INSEDIT txt'', ''txt''),
      (''LOG'', ''LOG acid/area/*,dt'', ''txt,float''),
      (''MCRE'', ''MCRE n, [type/*, alt/*, spd/*, dest/*]'', ''int,[txt,alt,spd,txt]''),
      (''MOVE'', ''MOVE acid,lat,lon,[alt,hdg,spd,vspd]'', ''acid,lat,lon,[alt,hdg,spd,vspd]''),
      (''ND'', ''ND acid'', ''txt''),
      (''NOISE'', ''NOISE [ON/OFF]'', ''[onoff]''),
      (''NOM'', ''NOM acid'', ''acid''),
      (''OP'', ''OP'', ''''),
      (''PCALL'', ''PCALL filename [REL/ABS]'', ''txt,[txt]''),
      (''RESET'', ''RESET'', ''''),
      (''SCEN'', ''SCEN scenname'', ''txt''),
      (''SEED'', ''SEED value'', ''int''),
      (''SPD'', ''SPD acid,spd (CAS-kts/Mach)'', ''acid,spd''),
      (''SSD'', ''SSD acid/ALL/OFF'', ''txt''),
      (''STOP'', ''STOP'', ''''),
      (''SYMBOL'', ''SYMBOL'', ''''),
      (''VS'', ''VS acid,vspd (ft/min)'', ''acid,vspd'')]"

definition src_cmddict ::
  "(string \<Rightarrow> 'w handler) \<Rightarrow> string \<Rightarrow> (string \<times> string \<times> 'w handler) option" where
  "src_cmddict h cmd =
     (case map_of cmdtable cmd of
        None \<Rightarrow> None
      | Some (helptext, argtypelist) \<Rightarrow> Some (helptext, argtypelist, h cmd))"

text \<open>\<^verbatim>\<open>self.cmdsynon\<close>.\<close>

definition src_cmdsynon :: "string \<Rightarrow> string option" where
  "src_cmdsynon =
     map_of
       [(''CONTINUE'', ''OP''), (''CREATE'', ''CRE''), (''DTLOOK'', ''ASA_DTLOOK''),
        (''END'', ''STOP''), (''EXIT'', ''STOP''), (''FWD'', ''FF''), (''PAUSE'', ''HOLD''),
        (''Q'', ''STOP''), (''QUIT'', ''STOP''), (''RUN'', ''OP''), (''START'', ''OP''),
        (''TURN'', ''HDG''), (''?'', ''HELP'')]"

text \<open>\<^verbatim>\<open>self.extracmdrefs\<close>: the modules imported for the keys of \<^verbatim>\<open>extracmdmodules\<close>.\<close>

definition src_extracmdrefs ::
  "'w extension \<Rightarrow> 'w extension \<Rightarrow> string \<Rightarrow> 'w extension option" where
  "src_extracmdrefs synthetic asascmd = map_of [(''SYN_'', synthetic), (''ASA_'', asascmd)]"

section \<open>An environment for the examples\<close>

text \<open>
  The examples below run the model in a small environment. The conversions read plain
  decimal numbers, on which they agree with \<^verbatim>\<open>int()\<close> and \<^verbatim>\<open>float()\<close>.
\<close>

definition demo_int :: "string \<Rightarrow> int option" where
  "demo_int s =
     (if isdigit s then Some (int (foldl (\<lambda>n c. 10 * n + ((of_char c :: nat) - 48)) 0 s))
      else None)"

definition demo_float :: "string \<Rightarrow> real option" where
  "demo_float s =
     (case split_on (CHR ''.'') s of
        [a] \<Rightarrow> map_option real_of_int (demo_int a)
      | [a, b] \<Rightarrow>
          (if a = [] \<and> b = [] then None
           else
             (case (demo_int (CHR ''0'' # a), demo_int (CHR ''0'' # b)) of
                (Some x, Some y) \<Rightarrow> Some (real_of_int x + real_of_int y / 10 ^ length b)
              | _ \<Rightarrow> None))
      | _ \<Rightarrow> None)"

text \<open>
  Modelled from the spec: \<^verbatim>\<open>cmdsplit\<close> of \<^verbatim>\<open>tools/misc.py\<close> is not in the source. In the
  examples of the spec a line is the command name, then the arguments separated by
  commas; the stand-in splits the line so and leaves the aircraft ids unused.
\<close>

definition demo_cmdsplit :: "string \<Rightarrow> string list \<Rightarrow> string \<times> string list" where
  "demo_cmdsplit line ids =
     (let cmd = takeWhile (\<lambda>c. \<not> py_space c) line;
          rest = strip (dropWhile (\<lambda>c. \<not> py_space c) line)
      in (cmd, if rest = [] then [] else map strip (split_on (CHR '','') rest)))"

text \<open>
  The collaborators of the examples keep a log of the calls they receive: the world is
  the list of the functions called, each with its arguments. One aircraft, KL204, flies;
  the metrics module is loaded.
\<close>

type_synonym calls = "(string \<times> pyval list) list"

definition record_call :: "string \<Rightarrow> calls handler" where
  "record_call name arglist st = Inr (PNone, st\<lparr>world := world st @ [(name, arglist)]\<rparr>)"

definition demo_fs :: "string \<Rightarrow> fsentry option" where
  "demo_fs =
     map_of
       [(''scenario/demo.scn'',
           File [''00:00:00.00>CRE KL001,A320,52.0,4.5,090,10000,250'' @ [CHR 0x0A],
                 ''00:00:05.00>ALT KL001,20000'' @ [CHR 0x0A]]),
        (''scenario/late.scn'',
           File [''00:00:10.00>HOLD'' @ [CHR 0x0A],
                 ''00:00:05.00>ECHO five'' @ [CHR 0x0A]]),
        (''scenario/mixed.scn'',
           File [''00:00:07.00>ECHO seven'' @ [CHR 0x0A],
                 ''this line has no delimiter'' @ [CHR 0x0A],
                 ''00:00:05.00>ECHO again'' @ [CHR 0x0A]]),
        (''scenario/bad.scn'',
           File [''this line has no delimiter'' @ [CHR 0x0A]]),
        (''scenario/notes.scn'',
           File [''# nothing is scheduled yet'' @ [CHR 0x0A]])]"

definition demo_env :: "calls env" where
  "demo_env =
     \<lparr>scenario_path = ''scenario'',
      fs = demo_fs,
      py_int = demo_int,
      py_float = demo_float,
      cmdsplit = demo_cmdsplit,
      traf_id = (\<lambda>w. [''KL204'']),
      id2idx = (\<lambda>w a. if a = ''KL204'' then 0 else - 1),
      metric_none = (\<lambda>w. False),
      txt2lat = demo_float,
      txt2lon = demo_float,
      txt2alt = demo_float,
      kts = 1852 / 3600,
      ft = 3048 / 10000,
      fpm = 3048 / 600000,
      cmddict = src_cmddict record_call,
      cmdsynon = src_cmdsynon,
      extracmdrefs = src_extracmdrefs (\<lambda>c n a st. Inr st) (\<lambda>c n a st. Inr st),
      builtin = (\<lambda>b cmd args line iv st.
                   Fall False iv (st\<lparr>world := world st @ [(cmd, map PStr args)]\<rparr>))\<rparr>"

definition demo_stk :: "string list \<Rightarrow> real list \<Rightarrow> string list \<Rightarrow> calls stk" where
  "demo_stk q ts cs =
     \<lparr>cmdstack = q, scentime = ts, scencmd = cs, scenfile = '''', echoed = [], world = []\<rparr>"

section \<open>Verification\<close>

subsection \<open>The scheduler tick\<close>

lemma stack_fields [simp]:
  "scentime (stack c st) = scentime st" "scencmd (stack c st) = scencmd st"
  by (simp_all add: stack_def Let_def)

lemma foldl_stack_fields [simp]:
  "scentime (foldl (\<lambda>s c. stack c s) st cs) = scentime st"
  "scencmd (foldl (\<lambda>s c. stack c s) st cs) = scencmd st"
  by (induction cs arbitrary: st) simp_all







subsection \<open>Loading a scenario\<close>

lemma drop_short_strip: "l \<in> set (drop_short ls) \<Longrightarrow> strip l \<noteq> []"
  by (induction ls) (auto split: if_splits)

text \<open>The second loop of \<^verbatim>\<open>openfile\<close> appends the accepted lines, in file order.\<close>

lemma read_lines_accepted:
  "\<forall>l \<in> set ls. strip l \<noteq> [] \<Longrightarrow>
   read_lines env off ls ts cs
     = Inr (ts @ map fst (accepted env off ls), cs @ map snd (accepted env off ls))"
proof (induction ls arbitrary: ts cs)
  case Nil
  show ?case by (simp add: accepted_def map_filter_simps)
next
  case (Cons l ls)
  from Cons.prems obtain c0 r where s: "strip l = c0 # r"
    by (cases "strip l") auto
  have rest: "\<forall>l \<in> set ls. strip l \<noteq> []" using Cons.prems by simp
  have acc: "accepted env off (l # ls)
      = (case (if c0 = CHR ''#'' then None else read_stamp env off l) of
           None \<Rightarrow> accepted env off ls
         | Some e \<Rightarrow> e # accepted env off ls)"
  proof -
    have a0: "accepted env off (l # ls)
      = (case (if starts_hash (strip l) then None else read_stamp env off l) of
           None \<Rightarrow> accepted env off ls
         | Some e \<Rightarrow> e # accepted env off ls)"
      unfolding accepted_def by (simp add: map_filter_simps split: option.splits)
    have sh: "starts_hash (strip l) = (c0 = CHR ''#'')"
      by (simp add: s starts_hash_def)
    show ?thesis unfolding a0 sh ..
  qed
  show ?case
  proof (cases "c0 = CHR ''#''")
    case True
    then show ?thesis using Cons.IH [OF rest] acc s by simp
  next
    case False
    show ?thesis
    proof (cases "read_stamp env off l")
      case None
      then show ?thesis using Cons.IH [OF rest] acc s False by simp
    next
      case (Some e)
      obtain t c where e: "e = (t, c)" by (cases e)
      show ?thesis using Cons.IH [OF rest, of "ts @ [t]" "cs @ [c]"] acc s False Some e by simp
    qed
  qed
qed

text \<open>
  C10. For a call of \<^verbatim>\<open>openfile\<close> without merging that finds and reads its file, the
  timeline is replaced by the accepted lines of the file in file order, nothing is
  sorted, and so a file whose accepted time stamps are not in non-decreasing order
  leaves a timeline that is not sorted.
\<close>

theorem openfile_replaces:
  assumes "resolve_scenfile (scenario_path env) scenname = Inr path"
    and "fs env path = Some (File ls)"
  shows "openfile env scenname off False st
           = Inr (st\<lparr>scentime := map fst (accepted env off (drop_short ls)),
                     scencmd := map snd (accepted env off (drop_short ls))\<rparr>)
         \<and> (\<not> sorted (map fst (accepted env off (drop_short ls)))
              \<longrightarrow> (\<forall>st'. openfile env scenname off False st = Inr st'
                          \<longrightarrow> \<not> sorted (scentime st')))"
proof -
  have ne: "\<forall>l \<in> set (drop_short ls). strip l \<noteq> []"
    using drop_short_strip by blast
  have r: "read_lines env off (drop_short ls) [] []
      = Inr (map fst (accepted env off (drop_short ls)), map snd (accepted env off (drop_short ls)))"
    using read_lines_accepted [OF ne, of env off "[]" "[]"] by simp
  have eq: "openfile env scenname off False st
           = Inr (st\<lparr>scentime := map fst (accepted env off (drop_short ls)),
                     scencmd := map snd (accepted env off (drop_short ls))\<rparr>)"
    using assms r by (simp add: openfile_def Let_def)
  then show ?thesis by simp
qed

text \<open>
  The theorem for C10 at \<^verbatim>\<open>late.scn\<close>, loaded over a timeline of one entry: the old
  entry is gone and the new trigger times are 10, 5.
\<close>

theorem openfile_replaces_witness:
  "resolve_scenfile (scenario_path demo_env) ''late'' = Inr ''scenario/late.scn''
   \<and> fs demo_env ''scenario/late.scn''
       = Some (File [''00:00:10.00>HOLD'' @ [CHR 0x0A], ''00:00:05.00>ECHO five'' @ [CHR 0x0A]])
   \<and> openfile demo_env ''late'' 0 False (demo_stk [] [3] [''OP''])
       = Inr (demo_stk [] [10, 5] [''HOLD'', ''ECHO five''])
   \<and> \<not> sorted [10, 5 :: real]"
proof -
  let ?ls = "[''00:00:10.00>HOLD'' @ [CHR 0x0A], ''00:00:05.00>ECHO five'' @ [CHR 0x0A]]"
  have h1: "resolve_scenfile (scenario_path demo_env) ''late'' = Inr ''scenario/late.scn''"
    by code_simp
  have h2: "fs demo_env ''scenario/late.scn'' = Some (File ?ls)"
    by code_simp
  have a: "accepted demo_env 0 (drop_short ?ls) = [(10, ''HOLD''), (5, ''ECHO five'')]"
    by code_simp
  have "openfile demo_env ''late'' 0 False (demo_stk [] [3] [''OP''])
      = Inr ((demo_stk [] [3] [''OP''])\<lparr>scentime := map fst (accepted demo_env 0 (drop_short ?ls)),
              scencmd := map snd (accepted demo_env 0 (drop_short ?ls))\<rparr>)"
    using openfile_replaces [OF h1 h2, of 0 "demo_stk [] [3] [''OP'']"] by blast
  then have "openfile demo_env ''late'' 0 False (demo_stk [] [3] [''OP''])
      = Inr (demo_stk [] [10, 5] [''HOLD'', ''ECHO five''])"
    unfolding a by (simp add: demo_stk_def)
  then show ?thesis using h1 h2 by simp
qed

text \<open>
  With merging, a file that is read into a timeline that does not stay empty gives the
  old entries followed by the accepted lines, sorted by trigger time with
  \<^const>\<open>sort_key\<close>: the trigger times are in non-decreasing order and entries with
  the same trigger time keep their order.
\<close>

lemma openfile_merge_sorted:
  assumes "resolve_scenfile (scenario_path env) scenname = Inr path"
    and "fs env path = Some (File ls)"
    and "length (scentime st) = length (scencmd st)"
    and "zip (scentime st) (scencmd st) @ accepted env off (drop_short ls) \<noteq> []"
  shows "\<exists>st'. openfile env scenname off True st = Inr st'
           \<and> zip (scentime st') (scencmd st')
               = sort_key fst (zip (scentime st) (scencmd st) @ accepted env off (drop_short ls))
           \<and> length (scentime st') = length (scencmd st')
           \<and> sorted (scentime st')
           \<and> (\<forall>t. filter (\<lambda>e. fst e = t) (zip (scentime st') (scencmd st'))
                  = filter (\<lambda>e. fst e = t)
                      (zip (scentime st) (scencmd st) @ accepted env off (drop_short ls)))"
proof -
  let ?A = "accepted env off (drop_short ls)"
  let ?Z = "zip (scentime st) (scencmd st) @ ?A"
  have ne: "\<forall>l \<in> set (drop_short ls). strip l \<noteq> []"
    using drop_short_strip by blast
  have r: "read_lines env off (drop_short ls) (scentime st) (scencmd st)
      = Inr (scentime st @ map fst ?A, scencmd st @ map snd ?A)"
    using read_lines_accepted [OF ne] .
  have z: "zip (scentime st @ map fst ?A) (scencmd st @ map snd ?A) = ?Z"
    using assms(3) by (simp add: zip_map_fst_snd)
  have sne: "sort_key fst ?Z \<noteq> []"
    using assms(4) by (metis length_0_conv length_sort)
  let ?st' = "st\<lparr>scentime := map fst (sort_key fst ?Z), scencmd := map snd (sort_key fst ?Z)\<rparr>"
  have eq: "openfile env scenname off True st = Inr ?st'"
    using assms(1,2) r z sne by (simp add: openfile_def Let_def resort_def)
  have z': "zip (scentime ?st') (scencmd ?st') = sort_key fst ?Z"
    by (simp add: zip_map_fst_snd)
  have srt: "sorted (scentime ?st')" by simp
  have stab: "\<And>t. filter (\<lambda>e. fst e = t) (sort_key fst ?Z) = filter (\<lambda>e. fst e = t) ?Z"
    by (rule sort_key_stable)
  show ?thesis
    using eq z' srt stab by (intro exI [of _ ?st']) simp
qed

text \<open>
  C3. The claim reads: for every call of \<^verbatim>\<open>openfile\<close> with merging, the timeline
  afterwards is the old timeline followed by the accepted lines, stably sorted by
  trigger time. When the old timeline is empty and the file has no accepted line, the
  sorted list is empty and the assignment of the re-sorted lists raises ValueError
  instead of leaving the empty timeline: here PCALL of a file that holds one comment.
\<close>

theorem merge_of_nothing_raises:
  "pcall demo_env 0 ''notes'' ''ABS'' (demo_stk [] [] []) = Inl ValueError"
  by code_simp

text \<open>
  C7. The claim reads: a malformed line is skipped and is never fatal to the load,
  whether or not merging is requested. A file whose only line has no \<^verbatim>\<open>>\<close> loads
  without merging and leaves an empty timeline; merged into an empty timeline the same
  file makes \<^verbatim>\<open>openfile\<close> raise ValueError.
\<close>

theorem malformed_line_fatal_on_merge:
  "openfile demo_env ''bad'' 0 True (demo_stk [] [] []) = Inl ValueError
   \<and> openfile demo_env ''bad'' 0 False (demo_stk [] [] []) = Inr (demo_stk [] [] [])"
  by code_simp

subsection \<open>Dispatching a line\<close>

text \<open>
  C4. A line that resolves to a command of the dictionary and has fewer arguments than
  the command has mandatory types echoes the syntax error, the line and the help text,
  and the loop goes on to the next line. No argument is converted and the function of
  the command is not called: the result is the same whatever function is registered.
\<close>

theorem too_few_arguments:
  assumes "strip line0 = line" and "line \<noteq> []"
    and "resolve env (world st) line = (cmd, args)"
    and "cmddict env cmd = Some (helptext, argtypelist, function)"
    and "length args < length (mandatory_types argtypelist)"
  shows "process_line env line0 iv st
           = Go iv (st\<lparr>echoed := echoed st
                          @ [''Syntax error: Too few arguments'', line, helptext]\<rparr>)
         \<and> (\<forall>f. process_line (env\<lparr>cmddict := (cmddict env)(cmd \<mapsto> (helptext, argtypelist, f))\<rparr>)
                    line0 iv st = process_line env line0 iv st)"
proof -
  have a: "\<And>e. cmddict e cmd = Some (helptext, argtypelist, function) \<Longrightarrow>
        resolve e (world st) line = (cmd, args) \<Longrightarrow>
        process_line e line0 iv st
           = Go iv (st\<lparr>echoed := echoed st
                          @ [''Syntax error: Too few arguments'', line, helptext]\<rparr>)"
    for "function"
    using assms(1,2,5)
    by (simp add: process_line_def Let_def registry_def finish_def echo_def)
  have r: "resolve (env\<lparr>cmddict := X\<rparr>) (world st) line = resolve env (world st) line" for X
    by (simp add: resolve_def)
  show ?thesis
    using a [OF assms(4) assms(3)] a [of "env\<lparr>cmddict := (cmddict env)(cmd \<mapsto> (helptext, argtypelist, f))\<rparr>" f for f]
      r assms(3)
    by simp
qed

text \<open>The theorem for C4 at \<^verbatim>\<open>ALT KL204\<close>: ALT has two mandatory arguments.\<close>

theorem too_few_arguments_witness:
  "strip ''ALT KL204'' = ''ALT KL204''
   \<and> resolve demo_env (world (demo_stk [] [] [])) ''ALT KL204'' = (''ALT'', [''KL204''])
   \<and> cmddict demo_env ''ALT''
       = Some (''ALT acid, alt, [vspd]'', ''acid,alt,[vspd]'', record_call ''ALT'')
   \<and> length [''KL204''] < length (mandatory_types ''acid,alt,[vspd]'')
   \<and> process_line demo_env ''ALT KL204'' IUnbound (demo_stk [] [] [])
       = Go IUnbound ((demo_stk [] [] [])\<lparr>echoed :=
            [''Syntax error: Too few arguments'', ''ALT KL204'', ''ALT acid, alt, [vspd]'']\<rparr>)"
proof -
  have h1: "strip ''ALT KL204'' = ''ALT KL204''" by code_simp
  have h2: "''ALT KL204'' \<noteq> []" by simp
  have h3: "resolve demo_env (world (demo_stk [] [] [])) ''ALT KL204'' = (''ALT'', [''KL204''])"
    by code_simp
  have h4: "cmddict demo_env ''ALT''
       = Some (''ALT acid, alt, [vspd]'', ''acid,alt,[vspd]'', record_call ''ALT'')"
    by (simp add: demo_env_def src_cmddict_def cmdtable_def)
  have h5: "length [''KL204''] < length (mandatory_types ''acid,alt,[vspd]'')"
    by code_simp
  have e: "echoed (demo_stk [] [] []) = []" by (simp add: demo_stk_def)
  show ?thesis
    using too_few_arguments [OF h1 h2 h3 h4 h5, of IUnbound] h1 h3 h4 h5 e by simp
qed

text \<open>
  C8. A line whose command is not in the dictionary after the synonym table, matches no
  branch of the chain and has no extension module for its first four characters echoes
  \<^verbatim>\<open>Unknown command or aircraft:\<close> and the command when it has no argument, and
  \<^verbatim>\<open>Unknown command:\<close> and the command otherwise; the loop of \<^verbatim>\<open>process\<close> goes on
  with the next queued line.
\<close>

theorem unknown_command:
  assumes "strip line0 = line" and "line \<noteq> []"
    and "resolve env (world st) line = (cmd, args)"
    and "cmddict env cmd = None"
    and "select_branch cmd = Inr None"
    and "extracmdrefs env (take 4 cmd) = None"
  shows "process_line env line0 iv st
           = Go iv (st\<lparr>echoed := echoed st
                @ [if length args = 0 then ''Unknown command or aircraft: '' @ cmd
                   else ''Unknown command: '' @ cmd]\<rparr>)
         \<and> (k < length (cmdstack st) \<and> cmdstack st ! k = line0 \<longrightarrow>
              process_loop env (Suc n) k iv st
                = process_loop env n (Suc k) iv (st\<lparr>echoed := echoed st
                    @ [if length args = 0 then ''Unknown command or aircraft: '' @ cmd
                       else ''Unknown command: '' @ cmd]\<rparr>))"
proof -
  have a: "process_line env line0 iv st
           = Go iv (st\<lparr>echoed := echoed st
                @ [if length args = 0 then ''Unknown command or aircraft: '' @ cmd
                   else ''Unknown command: '' @ cmd]\<rparr>)"
    using assms by (simp add: process_line_def Let_def finish_def echo_def)
  then show ?thesis by simp
qed

text \<open>
  The theorem for C8 at the queue \<^verbatim>\<open>foobar 1,2\<close>, \<^verbatim>\<open>FOOBAR\<close>: both lines are
  answered and the pass ends with an empty queue.
\<close>

theorem unknown_command_witness:
  "strip ''foobar 1,2'' = ''foobar 1,2''
   \<and> resolve demo_env (world (demo_stk [''foobar 1,2'', ''FOOBAR''] [] [])) ''foobar 1,2''
       = (''FOOBAR'', [''1'', ''2''])
   \<and> cmddict demo_env ''FOOBAR'' = None
   \<and> select_branch ''FOOBAR'' = Inr None
   \<and> extracmdrefs demo_env (take 4 ''FOOBAR'') = None
   \<and> process_line demo_env ''foobar 1,2'' IUnbound (demo_stk [''foobar 1,2'', ''FOOBAR''] [] [])
       = Go IUnbound ((demo_stk [''foobar 1,2'', ''FOOBAR''] [] [])
            \<lparr>echoed := [''Unknown command: FOOBAR'']\<rparr>)
   \<and> process demo_env 3 (demo_stk [''foobar 1,2'', ''FOOBAR''] [] [])
       = Some (Inr ((demo_stk [] [] [])
            \<lparr>echoed := [''Unknown command: FOOBAR'', ''Unknown command or aircraft: FOOBAR'']\<rparr>))"
proof -
  let ?S = "demo_stk [''foobar 1,2'', ''FOOBAR''] [] []"
  let ?S1 = "?S\<lparr>echoed := [''Unknown command: FOOBAR'']\<rparr>"
  have h1: "strip ''foobar 1,2'' = ''foobar 1,2''" by code_simp
  have h2: "''foobar 1,2'' \<noteq> []" by simp
  have h3: "resolve demo_env (world ?S) ''foobar 1,2'' = (''FOOBAR'', [''1'', ''2''])"
    by code_simp
  have h4: "cmddict demo_env ''FOOBAR'' = None"
    by (simp add: demo_env_def src_cmddict_def cmdtable_def)
  have h5: "select_branch ''FOOBAR'' = Inr None" by code_simp
  have h6: "extracmdrefs demo_env (take 4 ''FOOBAR'') = None"
    by (simp add: demo_env_def src_extracmdrefs_def)
  have e: "echoed ?S = []" by (simp add: demo_stk_def)
  have q: "0 < length (cmdstack ?S) \<and> cmdstack ?S ! 0 = ''foobar 1,2''"
    by (simp add: demo_stk_def)
  note u = unknown_command [OF h1 h2 h3 h4 h5 h6, of IUnbound 0 2]
  have line: "process_line demo_env ''foobar 1,2'' IUnbound ?S = Go IUnbound ?S1"
    using u e by simp
  have loop: "process_loop demo_env (Suc 2) 0 IUnbound ?S = process_loop demo_env 2 (Suc 0) IUnbound ?S1"
    using u q e by simp
  have rest: "process_loop demo_env 2 (Suc 0) IUnbound ?S1
       = Some (Inr ((demo_stk [] [] [])
            \<lparr>echoed := [''Unknown command: FOOBAR'', ''Unknown command or aircraft: FOOBAR'']\<rparr>))"
    by code_simp
  have "process demo_env 3 ?S = process_loop demo_env (Suc 2) 0 IUnbound ?S"
    by (simp add: process_def eval_nat_numeral)
  then have all: "process demo_env 3 ?S
       = Some (Inr ((demo_stk [] [] [])
            \<lparr>echoed := [''Unknown command: FOOBAR'', ''Unknown command or aircraft: FOOBAR'']\<rparr>))"
    using loop rest by simp
  show ?thesis using h1 h3 h4 h5 h6 line all by simp
qed

text \<open>The argument list only grows during the coercion loop.\<close>

lemma coerce_loop_extends:
  "\<exists>more se iv' msgs.
     coerce_loop env w cmd line helptext tas k arglist synerr iv = (arglist @ more, se, iv', msgs)"
proof (induction tas arbitrary: k arglist synerr iv)
  case Nil
  show ?case by simp
next
  case (Cons p tas)
  obtain ty a where p: "p = (ty, a)" by (cases p)
  show ?case
  proof (cases "coerce_arg env w (strip ty) a")
    case (Push v)
    from Cons.IH [of "Suc k" "arglist @ [v]" synerr "IInt (int k)"]
    obtain more se iv' msgs where
      "coerce_loop env w cmd line helptext tas (Suc k) (arglist @ [v]) synerr (IInt (int k))
         = ((arglist @ [v]) @ more, se, iv', msgs)" by blast
    then have "coerce_loop env w cmd line helptext (p # tas) k arglist synerr iv
         = (arglist @ (v # more), se, iv', msgs)"
      using p Push by simp
    then show ?thesis by blast
  next
    case Skip
    then show ?thesis using Cons.IH [of "Suc k" arglist synerr "IInt (int k)"] p by simp
  next
    case SynErr
    then show ?thesis using Cons.IH [of "Suc k" arglist True "IInt (int k)"] p by simp
  next
    case NotFound
    then have "coerce_loop env w cmd line helptext (p # tas) k arglist synerr iv
         = (arglist @ [], True, IInt (int k), [cmd @ '':'' @ a @ '' not found''])"
      using p by simp
    then show ?thesis by blast
  next
    case Throw
    then have "coerce_loop env w cmd line helptext (p # tas) k arglist synerr iv
         = (arglist @ [], False, IInt (int k),
            [''Syntax error in processing arguments'', line, helptext])"
      using p by simp
    then show ?thesis by blast
  qed
qed

text \<open>
  As long as no aircraft is missing and no conversion raises, the loop goes through
  the declared types and the arguments one by one.
\<close>

lemma coerce_loop_reach:
  assumes "\<forall>p \<in> set pre. coerce_arg env w (strip (fst p)) (snd p) \<noteq> NotFound
                          \<and> coerce_arg env w (strip (fst p)) (snd p) \<noteq> Throw"
  shows "\<exists>vs se iv'. length vs \<le> length pre \<and>
     coerce_loop env w cmd line helptext (pre @ post) k arglist synerr iv
       = coerce_loop env w cmd line helptext post (k + length pre) (arglist @ vs) se
           (if pre = [] then iv else iv')"
  using assms
proof (induction pre arbitrary: k arglist synerr iv)
  case Nil
  have "coerce_loop env w cmd line helptext ([] @ post) k arglist synerr iv
       = coerce_loop env w cmd line helptext post (k + length ([]::(string \<times> string) list))
           (arglist @ []) synerr (if ([]::(string \<times> string) list) = [] then iv else iv)"
    by simp
  then show ?case by (metis list.size(3) le_refl)
next
  case (Cons p pre)
  obtain ty a where p: "p = (ty, a)" by (cases p)
  have rest: "\<forall>p \<in> set pre. coerce_arg env w (strip (fst p)) (snd p) \<noteq> NotFound
                          \<and> coerce_arg env w (strip (fst p)) (snd p) \<noteq> Throw"
    using Cons.prems by simp
  have hd: "coerce_arg env w (strip ty) a \<noteq> NotFound" "coerce_arg env w (strip ty) a \<noteq> Throw"
    using Cons.prems p by simp_all
  have "\<exists>acc1 se1. length acc1 \<le> 1 \<and>
      coerce_loop env w cmd line helptext ((p # pre) @ post) k arglist synerr iv
        = coerce_loop env w cmd line helptext (pre @ post) (Suc k) (arglist @ acc1) se1 (IInt (int k))"
  proof (cases "coerce_arg env w (strip ty) a")
    case (Push v)
    then have "coerce_loop env w cmd line helptext ((p # pre) @ post) k arglist synerr iv
        = coerce_loop env w cmd line helptext (pre @ post) (Suc k) (arglist @ [v]) synerr (IInt (int k))"
      using p by simp
    then show ?thesis by (metis length_Cons list.size(3) le_refl One_nat_def)
  next
    case Skip
    then have "coerce_loop env w cmd line helptext ((p # pre) @ post) k arglist synerr iv
        = coerce_loop env w cmd line helptext (pre @ post) (Suc k) (arglist @ []) synerr (IInt (int k))"
      using p by simp
    then show ?thesis by (metis list.size(3) zero_le)
  next
    case SynErr
    then have "coerce_loop env w cmd line helptext ((p # pre) @ post) k arglist synerr iv
        = coerce_loop env w cmd line helptext (pre @ post) (Suc k) (arglist @ []) True (IInt (int k))"
      using p by simp
    then show ?thesis by (metis list.size(3) zero_le)
  next
    case NotFound
    then show ?thesis using hd by simp
  next
    case Throw
    then show ?thesis using hd by simp
  qed
  then obtain acc1 se1 where s1: "length acc1 \<le> 1"
      "coerce_loop env w cmd line helptext ((p # pre) @ post) k arglist synerr iv
        = coerce_loop env w cmd line helptext (pre @ post) (Suc k) (arglist @ acc1) se1 (IInt (int k))"
    by blast
  from Cons.IH [OF rest, of "Suc k" "arglist @ acc1" se1 "IInt (int k)"]
  obtain vs se iv' where s2: "length vs \<le> length pre"
     "coerce_loop env w cmd line helptext (pre @ post) (Suc k) (arglist @ acc1) se1 (IInt (int k))
       = coerce_loop env w cmd line helptext post (Suc k + length pre) ((arglist @ acc1) @ vs) se
           (if pre = [] then IInt (int k) else iv')"
    by blast
  have "length (acc1 @ vs) \<le> length (p # pre)" using s1 s2(1) by simp
  moreover have "coerce_loop env w cmd line helptext ((p # pre) @ post) k arglist synerr iv
       = coerce_loop env w cmd line helptext post (k + length (p # pre)) (arglist @ (acc1 @ vs)) se
           (if p # pre = [] then iv else (if pre = [] then IInt (int k) else iv'))"
    using s1(2) s2(2) by simp
  ultimately show ?case by blast
qed




lemma upper_length: "length (upper s) = length s"
  by (simp add: upper_def)

text \<open>
  An argument that the coercion loop reaches and converts is in the argument list of the
  function, after at most \<open>n\<close> earlier values.
\<close>

lemma prepare_args_push:
  assumes "argtypes \<noteq> [''txt'']"
    and "n < length argtypes" and "n < length args"
    and "coerce_arg env w (strip (argtypes ! n)) (args ! n) = Push v"
    and "\<forall>j<n. coerce_arg env w (strip (argtypes ! j)) (args ! j) \<noteq> NotFound
              \<and> coerce_arg env w (strip (argtypes ! j)) (args ! j) \<noteq> Throw"
  shows "\<exists>vs more se iv' msgs. length vs \<le> n \<and>
           prepare_args env w cmd line helptext argtypes args iv
             = (vs @ v # more, se, iv', msgs)"
proof -
  let ?z = "zip argtypes args"
  have ln: "n < length ?z" using assms(2,3) by simp
  have zn: "?z ! n = (argtypes ! n, args ! n)" using assms(2,3) by simp
  have split: "?z = take n ?z @ (argtypes ! n, args ! n) # drop (Suc n) ?z"
    using id_take_nth_drop [OF ln] zn by simp
  have pre: "\<forall>p \<in> set (take n ?z). coerce_arg env w (strip (fst p)) (snd p) \<noteq> NotFound
                          \<and> coerce_arg env w (strip (fst p)) (snd p) \<noteq> Throw"
  proof
    fix p assume "p \<in> set (take n ?z)"
    then obtain j where j: "j < length (take n ?z)" "take n ?z ! j = p"
      by (auto simp: in_set_conv_nth)
    then have jn: "j < n" by simp
    have "p = (argtypes ! j, args ! j)" using j jn assms(2,3) by auto
    then show "coerce_arg env w (strip (fst p)) (snd p) \<noteq> NotFound
               \<and> coerce_arg env w (strip (fst p)) (snd p) \<noteq> Throw"
      using assms(5) jn by simp
  qed
  from coerce_loop_reach [OF pre, of cmd line helptext "(argtypes ! n, args ! n) # drop (Suc n) ?z" 0 "[]" False iv]
  obtain vs se1 iv1 where r:
    "length vs \<le> length (take n ?z)"
    "coerce_loop env w cmd line helptext (take n ?z @ (argtypes ! n, args ! n) # drop (Suc n) ?z) 0 [] False iv
       = coerce_loop env w cmd line helptext ((argtypes ! n, args ! n) # drop (Suc n) ?z)
           (0 + length (take n ?z)) ([] @ vs) se1 (if take n ?z = [] then iv else iv1)"
    by blast
  let ?k = "0 + length (take n ?z)"
  let ?iv = "if take n ?z = [] then iv else iv1"
  have step: "coerce_loop env w cmd line helptext ((argtypes ! n, args ! n) # drop (Suc n) ?z) ?k ([] @ vs) se1 ?iv
     = coerce_loop env w cmd line helptext (drop (Suc n) ?z) (Suc ?k) (vs @ [v]) se1 (IInt (int ?k))"
    using assms(4) by simp
  from coerce_loop_extends [of env w cmd line helptext "drop (Suc n) ?z" "Suc ?k" "vs @ [v]" se1 "IInt (int ?k)"]
  obtain more se iv' msgs where e:
    "coerce_loop env w cmd line helptext (drop (Suc n) ?z) (Suc ?k) (vs @ [v]) se1 (IInt (int ?k))
       = ((vs @ [v]) @ more, se, iv', msgs)" by blast
  have "prepare_args env w cmd line helptext argtypes args iv
      = coerce_loop env w cmd line helptext ?z 0 [] False iv"
    using assms(1) by (simp add: prepare_args_def)
  also have "\<dots> = coerce_loop env w cmd line helptext (take n ?z @ (argtypes ! n, args ! n) # drop (Suc n) ?z) 0 [] False iv"
    using split by simp
  also have "\<dots> = (vs @ v # more, se, iv', msgs)"
    using r(2) step e by simp
  finally have "prepare_args env w cmd line helptext argtypes args iv = (vs @ v # more, se, iv', msgs)" .
  moreover have "length vs \<le> n" using r(1) ln by simp
  ultimately show ?thesis by blast
qed

text \<open>
  C9, as the source has it. The claim reads: the command name is matched without regard
  to case, and every \<^verbatim>\<open>txt\<close> argument reaches the handler in the casing of the input
  line. The command and the arguments are read from the upper-cased line, so two lines
  that differ in case only resolve to the same command and the same arguments. When
  the types of the command are the single \<^verbatim>\<open>txt\<close> and the line begins with the name of
  the command itself, typed in any casing, the function is called with the text of the
  stripped line behind that name and one more character, as it was typed. A \<^verbatim>\<open>txt\<close>
  argument of a command with other types, when the coercion loop reaches it and it is
  neither empty nor \<^verbatim>\<open>*\<close>, is passed as the argument read from the upper-cased line.
\<close>

theorem txt_argument_casing:
  assumes "strip line0 = line" and "line \<noteq> []"
    and "resolve env (world st) line = (cmd, args)"
    and "cmddict env cmd = Some (helptext, argtypelist, function)"
    and "length (mandatory_types argtypelist) \<le> length args"
  shows "(\<forall>l. upper l = upper line \<longrightarrow> resolve env (world st) l = (cmd, args))
    \<and> args = (case cmdsplit env (upper line) (traf_id env (world st)) of
                (c0, a0) \<Rightarrow>
                  if length a0 = 0 \<and> count_list (traf_id env (world st)) c0 > 0 then [c0] else a0)
    \<and> (all_types argtypelist = [''txt''] \<longrightarrow>
         (\<forall>typed sep rest. line = typed @ sep # rest \<and> upper typed = cmd \<longrightarrow>
            process_line env line0 iv st
              = finish cmd line
                  (case function [PStr rest] st of
                     Inl e \<Rightarrow> Exc e
                   | Inr (results, st') \<Rightarrow> report cmd helptext args iv results False st')))
    \<and> (all_types argtypelist \<noteq> [''txt''] \<and> n < length (all_types argtypelist) \<and> n < length args
          \<and> strip (all_types argtypelist ! n) = ''txt''
          \<and> args ! n \<noteq> '''' \<and> args ! n \<noteq> ''*''
          \<and> (\<forall>j<n. coerce_arg env (world st) (strip (all_types argtypelist ! j)) (args ! j) \<noteq> NotFound
                  \<and> coerce_arg env (world st) (strip (all_types argtypelist ! j)) (args ! j) \<noteq> Throw)
        \<longrightarrow> (\<exists>vs more se iv' msgs. length vs \<le> n \<and>
               process_line env line0 iv st
                 = finish cmd line
                     (case function (vs @ PStr (args ! n) # more) (foldl (\<lambda>s m. echo m s) st msgs) of
                        Inl e \<Rightarrow> Exc e
                      | Inr (results, st') \<Rightarrow> report cmd helptext args iv' results se st')))"
proof -
  let ?tys = "all_types argtypelist"
  have a: "\<forall>l. upper l = upper line \<longrightarrow> resolve env (world st) l = (cmd, args)"
    using assms(3) by (simp add: resolve_def)
  have b: "args = (case cmdsplit env (upper line) (traf_id env (world st)) of
                (c0, a0) \<Rightarrow>
                  if length a0 = 0 \<and> count_list (traf_id env (world st)) c0 > 0 then [c0] else a0)"
    using assms(3) by (auto simp: resolve_def split: prod.splits if_splits)
  have pl: "process_line env line0 iv st
      = finish cmd line
          (case prepare_args env (world st) cmd line helptext ?tys args iv of
             (arglist, synerr, iv', msgs) \<Rightarrow>
               (case function arglist (foldl (\<lambda>s m. echo m s) st msgs) of
                  Inl e \<Rightarrow> Exc e
                | Inr (results, st') \<Rightarrow> report cmd helptext args iv' results synerr st'))"
    using assms by (simp add: process_line_def Let_def registry_def)
  have c: "all_types argtypelist = [''txt''] \<longrightarrow>
         (\<forall>typed sep rest. line = typed @ sep # rest \<and> upper typed = cmd \<longrightarrow>
            process_line env line0 iv st
              = finish cmd line
                  (case function [PStr rest] st of
                     Inl e \<Rightarrow> Exc e
                   | Inr (results, st') \<Rightarrow> report cmd helptext args iv results False st'))"
  proof (intro impI allI)
    fix typed sep rest
    assume t: "all_types argtypelist = [''txt'']"
      and l: "line = typed @ sep # rest \<and> upper typed = cmd"
    have "length cmd = length typed" using l upper_length [of typed] by simp
    then have "drop (length cmd + 1) line = rest" using l by simp
    then show "process_line env line0 iv st
              = finish cmd line
                  (case function [PStr rest] st of
                     Inl e \<Rightarrow> Exc e
                   | Inr (results, st') \<Rightarrow> report cmd helptext args iv results False st')"
      unfolding pl using t by (simp add: prepare_args_def)
  qed
  have d: "all_types argtypelist \<noteq> [''txt''] \<and> n < length ?tys \<and> n < length args
          \<and> strip (?tys ! n) = ''txt''
          \<and> args ! n \<noteq> '''' \<and> args ! n \<noteq> ''*''
          \<and> (\<forall>j<n. coerce_arg env (world st) (strip (?tys ! j)) (args ! j) \<noteq> NotFound
                  \<and> coerce_arg env (world st) (strip (?tys ! j)) (args ! j) \<noteq> Throw)
        \<longrightarrow> (\<exists>vs more se iv' msgs. length vs \<le> n \<and>
               process_line env line0 iv st
                 = finish cmd line
                     (case function (vs @ PStr (args ! n) # more) (foldl (\<lambda>s m. echo m s) st msgs) of
                        Inl e \<Rightarrow> Exc e
                      | Inr (results, st') \<Rightarrow> report cmd helptext args iv' results se st'))"
  proof
    assume h: "all_types argtypelist \<noteq> [''txt''] \<and> n < length ?tys \<and> n < length args
          \<and> strip (?tys ! n) = ''txt''
          \<and> args ! n \<noteq> '''' \<and> args ! n \<noteq> ''*''
          \<and> (\<forall>j<n. coerce_arg env (world st) (strip (?tys ! j)) (args ! j) \<noteq> NotFound
                  \<and> coerce_arg env (world st) (strip (?tys ! j)) (args ! j) \<noteq> Throw)"
    have p: "coerce_arg env (world st) (strip (?tys ! n)) (args ! n) = Push (PStr (args ! n))"
      using h by (simp add: coerce_arg_def)
    from h have h1: "?tys \<noteq> [''txt'']" and h2: "n < length ?tys" and h3: "n < length args"
      and h5: "\<forall>j<n. coerce_arg env (world st) (strip (?tys ! j)) (args ! j) \<noteq> NotFound
                  \<and> coerce_arg env (world st) (strip (?tys ! j)) (args ! j) \<noteq> Throw"
      by blast+
    from prepare_args_push [OF h1 h2 h3 p h5, of cmd line helptext iv]
    obtain vs more se iv' msgs where
      q: "length vs \<le> n"
         "prepare_args env (world st) cmd line helptext ?tys args iv
             = (vs @ PStr (args ! n) # more, se, iv', msgs)"
      by blast
    have "process_line env line0 iv st
                 = finish cmd line
                     (case function (vs @ PStr (args ! n) # more) (foldl (\<lambda>s m. echo m s) st msgs) of
                        Inl e \<Rightarrow> Exc e
                      | Inr (results, st') \<Rightarrow> report cmd helptext args iv' results se st')"
      unfolding pl q(2) by simp
    then show "\<exists>vs more se iv' msgs. length vs \<le> n \<and>
               process_line env line0 iv st
                 = finish cmd line
                     (case function (vs @ PStr (args ! n) # more) (foldl (\<lambda>s m. echo m s) st msgs) of
                        Inl e \<Rightarrow> Exc e
                      | Inr (results, st') \<Rightarrow> report cmd helptext args iv' results se st')"
      using q(1) by blast
  qed
  show ?thesis using a b c d by blast
qed

text \<open>
  The theorem for C9 at \<^verbatim>\<open>echo Hello, World\<close>, where the function of ECHO gets
  \<^verbatim>\<open>Hello, World\<close>, and at \<^verbatim>\<open>LOG area1,5\<close>, where the function of LOG gets
  \<^verbatim>\<open>AREA1\<close>.
\<close>

theorem txt_argument_casing_witness:
  "strip ''echo Hello, World'' = ''echo Hello, World''
   \<and> resolve demo_env (world (demo_stk [] [] [])) ''echo Hello, World''
       = (''ECHO'', [''HELLO'', ''WORLD''])
   \<and> cmddict demo_env ''ECHO'' = Some (''ECHO txt'', ''txt'', record_call ''ECHO'')
   \<and> length (mandatory_types ''txt'') \<le> length [''HELLO'', ''WORLD'']
   \<and> all_types ''txt'' = [''txt'']
   \<and> ''echo Hello, World'' = ''echo'' @ CHR '' '' # ''Hello, World'' \<and> upper ''echo'' = ''ECHO''
   \<and> process_line demo_env ''echo Hello, World'' IUnbound (demo_stk [] [] [])
       = Go IUnbound ((demo_stk [] [] [])\<lparr>world := [(''ECHO'', [PStr ''Hello, World''])]\<rparr>)
   \<and> strip ''LOG area1,5'' = ''LOG area1,5''
   \<and> resolve demo_env (world (demo_stk [] [] [])) ''LOG area1,5'' = (''LOG'', [''AREA1'', ''5''])
   \<and> cmddict demo_env ''LOG'' = Some (''LOG acid/area/*,dt'', ''txt,float'', record_call ''LOG'')
   \<and> length (mandatory_types ''txt,float'') \<le> length [''AREA1'', ''5'']
   \<and> all_types ''txt,float'' = [''txt'', ''float'']
   \<and> (\<exists>vs more se iv' msgs. length vs \<le> 0 \<and>
         process_line demo_env ''LOG area1,5'' IUnbound (demo_stk [] [] [])
           = finish ''LOG'' ''LOG area1,5''
               (case record_call ''LOG'' (vs @ PStr ''AREA1'' # more)
                       (foldl (\<lambda>s m. echo m s) (demo_stk [] [] []) msgs) of
                  Inl e \<Rightarrow> Exc e
                | Inr (results, st') \<Rightarrow>
                    report ''LOG'' ''LOG acid/area/*,dt'' [''AREA1'', ''5''] iv' results se st'))"
proof -
  let ?S = "demo_stk [] [] [] :: calls stk"
  have w: "world ?S = []" by (simp add: demo_stk_def)
  have e1: "strip ''echo Hello, World'' = ''echo Hello, World''" by code_simp
  have e2: "''echo Hello, World'' \<noteq> []" by simp
  have e3: "resolve demo_env (world ?S) ''echo Hello, World'' = (''ECHO'', [''HELLO'', ''WORLD''])"
    by code_simp
  have e4: "cmddict demo_env ''ECHO'' = Some (''ECHO txt'', ''txt'', record_call ''ECHO'')"
    by (simp add: demo_env_def src_cmddict_def cmdtable_def)
  have e5: "length (mandatory_types ''txt'') \<le> length [''HELLO'', ''WORLD'']" by code_simp
  have e6: "all_types ''txt'' = [''txt'']" by code_simp
  have e7: "''echo Hello, World'' = ''echo'' @ CHR '' '' # ''Hello, World'' \<and> upper ''echo'' = ''ECHO''"
    by code_simp
  from txt_argument_casing [OF e1 e2 e3 e4 e5, where iv = IUnbound and n = 0] e6 e7
  have "process_line demo_env ''echo Hello, World'' IUnbound ?S
      = finish ''ECHO'' ''echo Hello, World''
          (case record_call ''ECHO'' [PStr ''Hello, World''] ?S of
             Inl e \<Rightarrow> Exc e
           | Inr (results, st') \<Rightarrow>
               report ''ECHO'' ''ECHO txt'' [''HELLO'', ''WORLD''] IUnbound results False st')"
    by blast
  then have echo_line: "process_line demo_env ''echo Hello, World'' IUnbound ?S
       = Go IUnbound (?S\<lparr>world := [(''ECHO'', [PStr ''Hello, World''])]\<rparr>)"
    by (simp add: record_call_def report_def finish_def w)
  have l1: "strip ''LOG area1,5'' = ''LOG area1,5''" by code_simp
  have l2: "''LOG area1,5'' \<noteq> []" by simp
  have l3: "resolve demo_env (world ?S) ''LOG area1,5'' = (''LOG'', [''AREA1'', ''5''])"
    by code_simp
  have l4: "cmddict demo_env ''LOG'' = Some (''LOG acid/area/*,dt'', ''txt,float'', record_call ''LOG'')"
    by (simp add: demo_env_def src_cmddict_def cmdtable_def)
  have l5: "length (mandatory_types ''txt,float'') \<le> length [''AREA1'', ''5'']" by code_simp
  have l6: "all_types ''txt,float'' = [''txt'', ''float'']" by code_simp
  have l7: "strip ''txt'' = ''txt''" by code_simp
  have pre: "all_types ''txt,float'' \<noteq> [''txt''] \<and> 0 < length (all_types ''txt,float'')
      \<and> 0 < length [''AREA1'', ''5''] \<and> strip (all_types ''txt,float'' ! 0) = ''txt''
      \<and> [''AREA1'', ''5''] ! 0 \<noteq> '''' \<and> [''AREA1'', ''5''] ! 0 \<noteq> ''*''
      \<and> (\<forall>j<0. coerce_arg demo_env (world ?S) (strip (all_types ''txt,float'' ! j)) ([''AREA1'', ''5''] ! j) \<noteq> NotFound
              \<and> coerce_arg demo_env (world ?S) (strip (all_types ''txt,float'' ! j)) ([''AREA1'', ''5''] ! j) \<noteq> Throw)"
    unfolding l6 using l7 by simp
  from txt_argument_casing [OF l1 l2 l3 l4 l5, where iv = IUnbound and n = 0] pre
  have log_line: "\<exists>vs more se iv' msgs. length vs \<le> 0 \<and>
         process_line demo_env ''LOG area1,5'' IUnbound ?S
           = finish ''LOG'' ''LOG area1,5''
               (case record_call ''LOG'' (vs @ PStr ([''AREA1'', ''5''] ! 0) # more)
                       (foldl (\<lambda>s m. echo m s) ?S msgs) of
                  Inl e \<Rightarrow> Exc e
                | Inr (results, st') \<Rightarrow>
                    report ''LOG'' ''LOG acid/area/*,dt'' [''AREA1'', ''5''] iv' results se st')"
    by blast
  have n0: "[''AREA1'', ''5''] ! 0 = ''AREA1''" by simp
  show ?thesis
    using e1 e3 e4 e5 e6 e7 echo_line l1 l3 l4 l5 l6 log_line [unfolded n0] by blast
qed

text \<open>
  C9 as stated fails for a \<^verbatim>\<open>txt\<close> argument of a command with more than one type:
  it is taken from the upper-cased line. \<^verbatim>\<open>LOG area1,5\<close> calls the function of LOG
  with the text \<^verbatim>\<open>AREA1\<close>.
\<close>

theorem txt_uppercased_counterexample:
  "process demo_env 2 (demo_stk [''LOG area1,5''] [] [])
     = Some (Inr \<lparr>cmdstack = [], scentime = [], scencmd = [], scenfile = '''',
                   echoed = [], world = [(''LOG'', [PStr ''AREA1'', PFloat 5])]\<rparr>)"
  by code_simp

text \<open>
  C2. The claim reads: when the conversion of an argument raises, the three texts are
  echoed and the line is given up without calling the handler. The \<^verbatim>\<open>except\<close> clause
  echoes the three texts, but has no \<^verbatim>\<open>continue\<close>: the function is called with the
  arguments converted so far. For \<^verbatim>\<open>DT abc\<close> the function of DT is called with no
  argument.
\<close>

theorem coercion_failure_still_calls_handler:
  "process demo_env 3 (demo_stk [''DT abc'', ''HOLD''] [] [])
     = Some (Inr \<lparr>cmdstack = [], scentime = [], scencmd = [], scenfile = '''',
                   echoed = [''Syntax error in processing arguments'', ''DT abc'', ''DT dt''],
                   world = [(''DT'', []), (''HOLD'', [])]\<rparr>)"
  by code_simp

subsection \<open>The pass over the queue\<close>

text \<open>
  C5. The claim reads: every call of \<^verbatim>\<open>process\<close> works through all queued lines and
  returns with an empty queue. The METRICS branch leaves \<^verbatim>\<open>process\<close> with
  \<^verbatim>\<open>return\<close> when the argument after its first character is not a number: the lines
  behind it are not processed and the queue is not emptied.
\<close>

theorem metrics_return_keeps_queue:
  "process demo_env 3 (demo_stk [''METRICS 1'', ''HOLD''] [] [])
     = Some (Inr \<lparr>cmdstack = [''METRICS 1'', ''HOLD''], scentime = [], scencmd = [],
                   scenfile = '''', echoed = [''Command argument invalid''], world = []\<rparr>)"
  by code_simp

end
